theory Spec2Isabelle
  imports Main "HOL-Library.Word" "HOL-Library.List_Lexorder" "HOL-Library.Multiset"
begin

section \<open>The zencrepes command of jahia-reporter\<close>

text \<open>
  A shallow embedding of \<^verbatim>\<open>src/commands/zencrepes.ts\<close>: the string cleaning
  \<^verbatim>\<open>prepString\<close>, the identity derivation \<^verbatim>\<open>getId\<close> and the command body
  \<^verbatim>\<open>JahiaTestrailReporter.run\<close>.
\<close>

subsection \<open>Strings\<close>

text \<open>
  A JavaScript string is a sequence of UTF-16 code units. The relational operators
  \<^verbatim>\<open><\<close> and \<^verbatim>\<open>>\<close> on two strings compare them code unit by code unit, a proper prefix
  being smaller: the lexicographic order of lists of 16-bit words.
\<close>

type_synonym jsstring = "16 word list"

text \<open>String literals of the source, written with their ASCII characters.\<close>

definition js :: "string \<Rightarrow> jsstring" where
  "js s = map of_char s"

subsection \<open>prepString\<close>

text \<open>
  \<^verbatim>\<open>s.replace(/[^0-9a-zA-Z]/g, '')\<close> deletes every code unit outside the three ranges
  \<^verbatim>\<open>0-9\<close>, \<^verbatim>\<open>a-z\<close>, \<^verbatim>\<open>A-Z\<close>.
\<close>

definition alnum :: "16 word \<Rightarrow> bool" where
  "alnum c \<longleftrightarrow> (0x30 \<le> c \<and> c \<le> 0x39) \<or> (0x61 \<le> c \<and> c \<le> 0x7A) \<or> (0x41 \<le> c \<and> c \<le> 0x5A)"

text \<open>
  \<^verbatim>\<open>toLowerCase\<close> is only ever applied to the output of the replacement, which holds ASCII
  letters and digits: there it maps \<^verbatim>\<open>A-Z\<close> to \<^verbatim>\<open>a-z\<close> and leaves the rest alone.
\<close>

definition toLowerCase :: "jsstring \<Rightarrow> jsstring" where
  "toLowerCase s = map (\<lambda>c. if 0x41 \<le> c \<and> c \<le> 0x5A then c + 0x20 else c) s"

definition prepString :: "jsstring \<Rightarrow> jsstring" where
  "prepString s = toLowerCase (filter alnum s)"

subsection \<open>Dependencies and their comparison\<close>

record ZenCrepesDependency =
  dep_name :: jsstring
  dep_version :: jsstring

text \<open>The comparison function handed to \<^verbatim>\<open>sort\<close> in \<^verbatim>\<open>getId\<close>, branch by branch.\<close>

definition compareDeps :: "ZenCrepesDependency \<Rightarrow> ZenCrepesDependency \<Rightarrow> int" where
  "compareDeps a b =
     (if dep_name a > dep_name b then 1
      else if dep_name a < dep_name b then -1
      else if dep_version a > dep_version b then 1
      else if dep_version a < dep_version b then -1
      else 0)"

text \<open>The order the comparison function stands for: \<open>a\<close> is not after \<open>b\<close>.\<close>

abbreviation dep_le :: "ZenCrepesDependency \<Rightarrow> ZenCrepesDependency \<Rightarrow> bool" where
  "dep_le a b \<equiv> compareDeps a b \<le> 0"

text \<open>
  \<^verbatim>\<open>Array.prototype.sort\<close> with a comparison function: a stable sort that rearranges the
  array in place. The model is the stable insertion sort; the result is the content of
  the array after the call. For the comparison function above no other sort could return
  anything else (\<open>array_sort_unique\<close> below).
\<close>

fun sort_insert :: "('a \<Rightarrow> 'a \<Rightarrow> int) \<Rightarrow> 'a \<Rightarrow> 'a list \<Rightarrow> 'a list" where
  "sort_insert cmp x [] = [x]"
| "sort_insert cmp x (y # ys) =
     (if cmp x y \<le> 0 then x # y # ys else y # sort_insert cmp x ys)"

fun array_sort :: "('a \<Rightarrow> 'a \<Rightarrow> int) \<Rightarrow> 'a list \<Rightarrow> 'a list" where
  "array_sort cmp [] = []"
| "array_sort cmp (x # xs) = sort_insert cmp x (array_sort cmp xs)"

subsection \<open>getId\<close>

definition UUID_NAMESPACE :: jsstring where
  "UUID_NAMESPACE = js ''c72d8f12-1818-4cb9-bead-44634c441c11''"

text \<open>The body of the \<^verbatim>\<open>forEach\<close> callback: one dependency appended to \<^verbatim>\<open>idStr\<close>.\<close>

definition appendDep :: "ZenCrepesDependency \<Rightarrow> jsstring \<Rightarrow> jsstring" where
  "appendDep d idStr = idStr @ prepString (dep_name d) @ prepString (dep_version d)"

text \<open>
  \<^verbatim>\<open>uuidv5\<close> comes from the \<^verbatim>\<open>uuid\<close> package and is a parameter: a function of the name
  string and the namespace. \<^verbatim>\<open>getId\<close> sorts the array it is given in place, so the model
  returns the id together with the array as the call leaves it.
\<close>

definition getId ::
  "(jsstring \<Rightarrow> jsstring \<Rightarrow> jsstring) \<Rightarrow> jsstring \<Rightarrow> jsstring \<Rightarrow> ZenCrepesDependency list
     \<Rightarrow> jsstring \<times> ZenCrepesDependency list" where
  "getId uuidv5 n v dependencies =
     (let idStr0 = prepString n @ prepString v;
          sorted_deps = array_sort compareDeps dependencies;
          idStr = fold appendDep sorted_deps idStr0
      in (uuidv5 idStr UUID_NAMESPACE, sorted_deps))"

subsection \<open>JSON values\<close>

text \<open>
  What \<^verbatim>\<open>JSON.parse\<close> returns. A number is kept as the string that \<^verbatim>\<open>String(x)\<close> gives
  for it; an object is the list of its own properties, each key once.
\<close>

datatype json =
  JNull
  | JBool bool
  | JNum jsstring
  | JStr jsstring
  | JArr "json list"
  | JObj "(jsstring \<times> json) list"

text \<open>
  Every exception that can end \<^verbatim>\<open>run\<close>: the four calls that may fail before the event
  exists (\<^verbatim>\<open>ingestReport\<close>, \<^verbatim>\<open>JSON.parse(flags.dependencies)\<close>, \<^verbatim>\<open>fs.readFileSync\<close>,
  \<^verbatim>\<open>JSON.parse(versionFile)\<close>), the \<^verbatim>\<open>TypeError\<close> that JavaScript raises on a value of the
  wrong shape, and the failure of \<^verbatim>\<open>post\<close>.
\<close>

datatype error =
  ReportParseError
  | DependenciesParseError
  | ManifestReadError
  | ManifestParseError
  | TypeError
  | DeliveryError

definition andThen :: "error + 'a \<Rightarrow> ('a \<Rightarrow> error + 'b) \<Rightarrow> error + 'b" where
  "andThen r f = (case r of Inl e \<Rightarrow> Inl e | Inr x \<Rightarrow> f x)"

text \<open>
  The property read \<^verbatim>\<open>x.p\<close>, for the names the command reads (\<^verbatim>\<open>name\<close>, \<^verbatim>\<open>version\<close>,
  \<^verbatim>\<open>build\<close>, \<^verbatim>\<open>jahia\<close>, \<^verbatim>\<open>module\<close>, \<^verbatim>\<open>dependencies\<close>), none of which a prototype
  provides: on \<^verbatim>\<open>undefined\<close> (\<open>None\<close>) and on \<^verbatim>\<open>null\<close> it throws, on an object it is the own
  property or \<^verbatim>\<open>undefined\<close>, on anything else \<^verbatim>\<open>undefined\<close>.
\<close>

fun get_prop :: "json option \<Rightarrow> jsstring \<Rightarrow> error + json option" where
  "get_prop None p = Inl TypeError"
| "get_prop (Some JNull) p = Inl TypeError"
| "get_prop (Some (JObj kvs)) p = Inr (map_of kvs p)"
| "get_prop (Some j) p = Inr None"

text \<open>
  \<^verbatim>\<open>ToString\<close>, which a template literal applies to each substitution. An array is joined
  with commas, \<^verbatim>\<open>null\<close> elements giving the empty string. An object gives
  \<^verbatim>\<open>[object Object]\<close>, unless it has an own property \<^verbatim>\<open>toString\<close>: that value is not
  callable, \<^verbatim>\<open>valueOf\<close> then yields no primitive, and the conversion throws.
\<close>

fun toString :: "json \<Rightarrow> error + jsstring"
  and join :: "json list \<Rightarrow> error + jsstring" where
  "toString JNull = Inr (js ''null'')"
| "toString (JBool b) = Inr (if b then js ''true'' else js ''false'')"
| "toString (JNum s) = Inr s"
| "toString (JStr s) = Inr s"
| "toString (JArr xs) = join xs"
| "toString (JObj kvs) =
     (if js ''toString'' \<in> set (map fst kvs) then Inl TypeError
      else Inr (js ''[object Object]''))"
| "join [] = Inr []"
| "join (x # xs) =
     andThen (case x of JNull \<Rightarrow> Inr [] | _ \<Rightarrow> toString x) (\<lambda>s.
       if xs = [] then Inr s
       else andThen (join xs) (\<lambda>t. Inr (s @ js '','' @ t)))"

definition substitution :: "json option \<Rightarrow> error + jsstring" where
  "substitution x = (case x of None \<Rightarrow> Inr (js ''undefined'') | Some j \<Rightarrow> toString j)"

text \<open>
  The spread \<^verbatim>\<open>...x\<close> inside an array literal: the elements of an array, the code points
  of a string (a high surrogate and the low surrogate after it make one), and a
  \<^verbatim>\<open>TypeError\<close> for what is not iterable.
\<close>

fun code_points :: "jsstring \<Rightarrow> jsstring list" where
  "code_points (c # d # cs) =
     (if 0xD800 \<le> c \<and> c \<le> 0xDBFF \<and> 0xDC00 \<le> d \<and> d \<le> 0xDFFF
      then [c, d] # code_points cs
      else [c] # code_points (d # cs))"
| "code_points [c] = [[c]]"
| "code_points [] = []"

fun spread :: "json option \<Rightarrow> error + json list" where
  "spread (Some (JArr xs)) = Inr xs"
| "spread (Some (JStr s)) = Inr (map JStr (code_points s))"
| "spread x = Inl TypeError"

subsection \<open>The command's data\<close>

text \<open>
  The types of \<^verbatim>\<open>global.type.ts\<close> as the command uses them, and how a value of each type
  looks as JSON. A \<^verbatim>\<open>UtilsVersions\<close> is read at \<^verbatim>\<open>version.jahia.version\<close>,
  \<^verbatim>\<open>version.jahia.build\<close>, \<^verbatim>\<open>version.module.version\<close> and \<^verbatim>\<open>version.dependencies\<close>.
\<close>

record UtilsVersions =
  jahia_version :: jsstring
  jahia_build :: jsstring
  module_version :: jsstring
  version_dependencies :: "ZenCrepesDependency list"

definition dep_json :: "ZenCrepesDependency \<Rightarrow> json" where
  "dep_json d = JObj [(js ''name'', JStr (dep_name d)), (js ''version'', JStr (dep_version d))]"

definition deps_json :: "ZenCrepesDependency list \<Rightarrow> json" where
  "deps_json ds = JArr (map dep_json ds)"

definition versions_json :: "UtilsVersions \<Rightarrow> json" where
  "versions_json u =
     JObj [(js ''jahia'',
              JObj [(js ''version'', JStr (jahia_version u)),
                    (js ''build'', JStr (jahia_build u))]),
           (js ''module'', JObj [(js ''version'', JStr (module_version u))]),
           (js ''dependencies'', deps_json (version_dependencies u))]"

text \<open>
  A JSON value seen as a dependency: an object whose \<^verbatim>\<open>name\<close> and \<^verbatim>\<open>version\<close> are
  strings. Its other properties are never read by the command and are not kept.
\<close>

definition dependency_of :: "json \<Rightarrow> ZenCrepesDependency option" where
  "dependency_of j =
     (case j of
        JObj kvs \<Rightarrow>
          (case (map_of kvs (js ''name''), map_of kvs (js ''version'')) of
             (Some (JStr n), Some (JStr v)) \<Rightarrow> Some \<lparr>dep_name = n, dep_version = v\<rparr>
           | _ \<Rightarrow> None)
      | _ \<Rightarrow> None)"

text \<open>
  Numbers. The counts of a report (\<^verbatim>\<open>tests\<close>, \<^verbatim>\<open>failures\<close>) are whole numbers; the duration
  \<^verbatim>\<open>time\<close> is only copied, so its type is left open. JavaScript numbers are IEEE-754
  doubles: the difference of two whole numbers is the exact difference rounded to 53
  significant bits, ties to the even neighbour, and an infinity from \<open>2 ^ 1024\<close> on.
\<close>

record 't report =
  report_tests :: int
  report_failures :: int
  report_time :: 't

datatype jsnumber = Finite int | PlusInfinity | MinusInfinity

fun bit_length :: "int \<Rightarrow> nat" where
  "bit_length n = (if n \<le> 0 then 0 else Suc (bit_length (n div 2)))"

declare bit_length.simps [simp del]

definition round_double :: "int \<Rightarrow> jsnumber" where
  "round_double x =
     (let m = \<bar>x\<bar>;
          e = bit_length m - 53;
          q = m div 2 ^ e;
          r = m mod 2 ^ e;
          q' = (if 2 ^ e < 2 * r \<or> (2 * r = 2 ^ e \<and> odd q) then q + 1 else q);
          y = q' * 2 ^ e
      in if 2 ^ 1024 \<le> y then (if x < 0 then MinusInfinity else PlusInfinity)
         else Finite (if x < 0 then - y else y))"

text \<open>The operator \<^verbatim>\<open>-\<close> on two whole numbers.\<close>

definition minus_double :: "int \<Rightarrow> int \<Rightarrow> jsnumber" where
  "minus_double a b = round_double (a - b)"

text \<open>
  The event. Its \<^verbatim>\<open>version\<close> is whatever \<^verbatim>\<open>elementVersion\<close> holds, which with a version
  file may be any JSON value or \<^verbatim>\<open>undefined\<close> (\<open>None\<close>).
\<close>

record 't ZenCrepesStateNode =
  zc_id :: jsstring
  zc_name :: jsstring
  zc_version :: "json option"
  zc_dependencies :: "ZenCrepesDependency list"
  zc_createdAt :: jsstring
  zc_state :: jsstring
  zc_url :: jsstring
  zc_runTotal :: int
  zc_runSuccess :: jsnumber
  zc_runFailure :: int
  zc_runDuration :: 't

record flags =
  flag_type :: jsstring
  flag_name :: jsstring
  flag_version :: jsstring
  flag_dependencies :: jsstring
  flag_url :: jsstring
  flag_versionFilepath :: "jsstring option"

record args =
  arg_file :: jsstring
  arg_payloadurl :: jsstring
  arg_secret :: jsstring

text \<open>
  What \<^verbatim>\<open>run\<close> itself does to the outside: a line on standard output through
  \<^verbatim>\<open>this.log\<close>, or an HTTP POST.
\<close>

record 't request =
  req_url :: jsstring
  req_headers :: "(jsstring \<times> jsstring) list"
  req_json :: "'t ZenCrepesStateNode"

datatype 't effect = Log jsstring | Post "'t request"

text \<open>
  The collaborators of \<^verbatim>\<open>run\<close>, none of them in this file of the repository: the report
  reader, \<^verbatim>\<open>JSON.parse\<close> at its two calls (\<open>Inl\<close> when the text is not JSON), the file
  system, the \<^verbatim>\<open>uuid\<close> package, the clock, \<^verbatim>\<open>JSON.stringify\<close>, \<^verbatim>\<open>crypto\<close>'s HMAC-SHA1 with
  hexadecimal output (key first), and whether the transport's \<^verbatim>\<open>post\<close> returns or throws.
\<close>

record 't world =
  ingestReport :: "jsstring \<Rightarrow> jsstring \<Rightarrow> error + 't report"
  JSON_parse_dependencies :: "jsstring \<Rightarrow> error + json"
  readFileSync :: "jsstring \<Rightarrow> error + jsstring"
  JSON_parse_versions :: "jsstring \<Rightarrow> error + json"
  uuidv5 :: "jsstring \<Rightarrow> jsstring \<Rightarrow> jsstring"
  toISOString_now :: jsstring
  JSON_stringify :: "'t ZenCrepesStateNode \<Rightarrow> jsstring"
  hmac_sha1_hex :: "jsstring \<Rightarrow> jsstring \<Rightarrow> jsstring"
  post :: "'t request \<Rightarrow> error + unit"

subsection \<open>run\<close>


text \<open>
  The three statements under \<^verbatim>\<open>if (flags.versionFilepath !== undefined)\<close> that follow the
  parsing of the file, on the parsed flag and the parsed file whatever their shapes.
  \<^verbatim>\<open>dependencies.push(...)\<close> throws on \<^verbatim>\<open>null\<close>, evaluates the template literal, and throws
  when the flag is not an array and so has no \<^verbatim>\<open>push\<close> to call; the array literal spreads
  \<^verbatim>\<open>version.dependencies\<close> behind the flag's elements and the pushed object;
  \<^verbatim>\<open>version.module.version\<close> becomes \<^verbatim>\<open>elementVersion\<close>.
\<close>

definition run_merge :: "json \<Rightarrow> json \<Rightarrow> error + (json \<times> json option)" where
  "run_merge dependencies version =
     (if dependencies = JNull then Inl TypeError
      else
        andThen (get_prop (Some version) (js ''jahia'')) (\<lambda>jahia.
        andThen (get_prop jahia (js ''version'')) (\<lambda>jv.
        andThen (substitution jv) (\<lambda>sv.
        andThen (get_prop jahia (js ''build'')) (\<lambda>jb.
        andThen (substitution jb) (\<lambda>sb.
          (case dependencies of
             JArr elems \<Rightarrow>
               andThen (get_prop (Some version) (js ''dependencies'')) (\<lambda>d.
               andThen (spread d) (\<lambda>extra.
               andThen (get_prop (Some version) (js ''module'')) (\<lambda>m.
               andThen (get_prop m (js ''version'')) (\<lambda>mv.
                 Inr (JArr ((elems @
                        [JObj [(js ''name'', JStr (js ''Jahia'')),
                               (js ''version'', JStr (sv @ js ''-'' @ sb))]]) @ extra),
                      mv)))))
           | _ \<Rightarrow> Inl TypeError)))))))"

text \<open>
  The block that fills \<^verbatim>\<open>dependencies\<close> and \<^verbatim>\<open>elementVersion\<close>: the flag is parsed, and when
  \<^verbatim>\<open>flags.versionFilepath\<close> is defined the file is read and parsed and the two are merged.
\<close>

definition run_resolve :: "'t world \<Rightarrow> flags \<Rightarrow> error + (json \<times> json option)" where
  "run_resolve w fl =
     (case JSON_parse_dependencies w (flag_dependencies fl) of
        Inl e \<Rightarrow> Inl e
      | Inr dependencies \<Rightarrow>
          (case flag_versionFilepath fl of
             None \<Rightarrow> Inr (dependencies, Some (JStr (flag_version fl)))
           | Some path \<Rightarrow>
               (case readFileSync w path of
                  Inl e \<Rightarrow> Inl e
                | Inr versionFile \<Rightarrow>
                    (case JSON_parse_versions w versionFile of
                       Inl e \<Rightarrow> Inl e
                     | Inr version \<Rightarrow> run_merge dependencies version))))"

text \<open>
  The call \<^verbatim>\<open>getId(flags.name, flags.version, dependencies)\<close> on whatever value
  \<^verbatim>\<open>dependencies\<close> holds. \<^verbatim>\<open>getId\<close> above is the function on arrays of the declared type,
  and \<open>dependencies_of\<close> reads a JSON value as such an array when every element of it is
  a dependency. On any other value the body throws a \<^verbatim>\<open>TypeError\<close>: what is not an array has no \<^verbatim>\<open>sort\<close>
  to call; \<^verbatim>\<open>forEach\<close> visits every element, \<^verbatim>\<open>d.name\<close> throws on \<^verbatim>\<open>null\<close>, and
  \<^verbatim>\<open>prepString\<close> throws on a \<^verbatim>\<open>name\<close> or \<^verbatim>\<open>version\<close> that is not a string, since only a
  string has a \<^verbatim>\<open>replace\<close> to call (the comparison function may throw the same error
  earlier, and throws no other).
\<close>

definition dependencies_of :: "json \<Rightarrow> ZenCrepesDependency list option" where
  "dependencies_of j =
     (case j of JArr elems \<Rightarrow> those (map dependency_of elems) | _ \<Rightarrow> None)"

definition getId_call ::
  "(jsstring \<Rightarrow> jsstring \<Rightarrow> jsstring) \<Rightarrow> jsstring \<Rightarrow> jsstring \<Rightarrow> json
     \<Rightarrow> error + (jsstring \<times> ZenCrepesDependency list)" where
  "getId_call u n v dependencies =
     (case dependencies_of dependencies of
        Some ds \<Rightarrow> Inr (getId u n v ds)
      | None \<Rightarrow> Inl TypeError)"

text \<open>
  The object literal \<^verbatim>\<open>zcPayload\<close>. Its properties are evaluated in the order written:
  \<^verbatim>\<open>id\<close> first, so \<^verbatim>\<open>getId\<close> has sorted the array \<^verbatim>\<open>dependencies\<close> in place when the
  property \<^verbatim>\<open>dependencies\<close> takes the same array.
\<close>

definition run_payload ::
  "'t world \<Rightarrow> flags \<Rightarrow> 't report \<Rightarrow> json \<Rightarrow> json option
     \<Rightarrow> error + 't ZenCrepesStateNode" where
  "run_payload w fl report dependencies elementVersion =
     (case getId_call (uuidv5 w) (flag_name fl) (flag_version fl) dependencies of
        Inl e \<Rightarrow> Inl e
      | Inr (i, dependencies') \<Rightarrow>
          Inr \<lparr>zc_id = i,
               zc_name = flag_name fl,
               zc_version = elementVersion,
               zc_dependencies = dependencies',
               zc_createdAt = toISOString_now w,
               zc_state = (if report_failures report = 0 then js ''PASS'' else js ''FAIL''),
               zc_url = flag_url fl,
               zc_runTotal = report_tests report,
               zc_runSuccess = minus_double (report_tests report) (report_failures report),
               zc_runFailure = report_failures report,
               zc_runDuration = report_time report\<rparr>)"

text \<open>
  The signature header: \<^verbatim>\<open>'sha1='\<close> and the hexadecimal digest, through a UTF-8 buffer and
  back, which leaves an ASCII string as it is.
\<close>

definition run_signature :: "'t world \<Rightarrow> args \<Rightarrow> 't ZenCrepesStateNode \<Rightarrow> jsstring" where
  "run_signature w ar zcPayload =
     js ''sha1='' @ hmac_sha1_hex w (arg_secret ar) (JSON_stringify w zcPayload)"

text \<open>
  The command: the effects in the order they happen, and how it ends (\<open>Inl\<close> the exception
  that ended it).
\<close>

definition run :: "'t world \<Rightarrow> flags \<Rightarrow> args \<Rightarrow> 't effect list \<times> (error + unit)" where
  "run w fl ar =
     (case ingestReport w (flag_type fl) (arg_file ar) of
        Inl e \<Rightarrow> ([], Inl e)
      | Inr report \<Rightarrow>
          (case run_resolve w fl of
             Inl e \<Rightarrow> ([], Inl e)
           | Inr (dependencies, elementVersion) \<Rightarrow>
               (case run_payload w fl report dependencies elementVersion of
                  Inl e \<Rightarrow> ([], Inl e)
                | Inr zcPayload \<Rightarrow>
                    (let xHubSignature = run_signature w ar zcPayload;
                         request =
                           \<lparr>req_url = arg_payloadurl ar,
                            req_headers =
                              [(js ''x-hub-signature'', xHubSignature),
                               (js ''Content-Type'', js ''application/json'')],
                            req_json = zcPayload\<rparr>
                     in ([Log (JSON_stringify w zcPayload), Post request],
                         post w request)))))"

text \<open>The requests and the output lines of a trace.\<close>

fun posted :: "'t effect list \<Rightarrow> 't request list" where
  "posted [] = []"
| "posted (Log s # es) = posted es"
| "posted (Post r # es) = r # posted es"

fun logged :: "'t effect list \<Rightarrow> jsstring list" where
  "logged [] = []"
| "logged (Log s # es) = s # logged es"
| "logged (Post r # es) = logged es"

text \<open>
  Modelled from the spec: the body that the transport (\<^verbatim>\<open>SyncRequestClient.post\<close> of
  \<^verbatim>\<open>ts-sync-request\<close>, not in this repository) puts on the wire for the object it is
  handed. The spec gives the request as ``body = JSON-serialized Event'': the JSON
  serialization of that object.
\<close>

definition wire_body :: "'t world \<Rightarrow> 't request \<Rightarrow> jsstring" where
  "wire_body w rq = JSON_stringify w (req_json rq)"

text \<open>The request that \<^verbatim>\<open>run\<close> builds around an event.\<close>

definition request_of :: "'t world \<Rightarrow> args \<Rightarrow> 't ZenCrepesStateNode \<Rightarrow> 't request" where
  "request_of w ar zcPayload =
     \<lparr>req_url = arg_payloadurl ar,
      req_headers =
        [(js ''x-hub-signature'', run_signature w ar zcPayload),
         (js ''Content-Type'', js ''application/json'')],
      req_json = zcPayload\<rparr>"

subsection \<open>A test double\<close>

text \<open>
  Concrete collaborators on which the command can be run: three report files, four values
  of the dependencies flag, two version files, and toy functions in place of the hash,
  the serializer and the HMAC.
\<close>

definition depA :: ZenCrepesDependency where
  "depA = \<lparr>dep_name = js ''alpha'', dep_version = js ''1.0''\<rparr>"

definition depB :: ZenCrepesDependency where
  "depB = \<lparr>dep_name = js ''beta'', dep_version = js ''2.0''\<rparr>"

definition depC :: ZenCrepesDependency where
  "depC = \<lparr>dep_name = js ''graphql'', dep_version = js ''1.5''\<rparr>"

definition example_versions :: UtilsVersions where
  "example_versions =
     \<lparr>jahia_version = js ''8.0.1'', jahia_build = js ''r42'', module_version = js ''2.3.4'',
      version_dependencies = [depC]\<rparr>"

definition flag_text :: jsstring where
  \<open>flag_text = js ''[{"name":"beta","version":"2.0"},{"name":"alpha","version":"1.0"}]''\<close>

definition nameless_text :: jsstring where
  \<open>nameless_text = js ''[{"name":"alpha"}]''\<close>

definition versions_text :: jsstring where
  \<open>versions_text = js ''{"jahia":{"version":"8.0.1","build":"r42"},"module":{"version":"2.3.4"},"dependencies":[{"name":"graphql","version":"1.5"}]}''\<close>

definition bare_text :: jsstring where
  \<open>bare_text = js ''{"jahia":{},"module":{},"dependencies":[]}''\<close>

definition example_world :: "nat world" where
  "example_world =
     \<lparr>ingestReport = (\<lambda>t f.
          if f = js ''fail.xml''
          then Inr \<lparr>report_tests = 2, report_failures = 5, report_time = 7\<rparr>
          else if f = js ''pass.xml''
          then Inr \<lparr>report_tests = 10, report_failures = 0, report_time = 3\<rparr>
          else if f = js ''huge.xml''
          then Inr \<lparr>report_tests = 2 ^ 54, report_failures = 1, report_time = 9\<rparr>
          else Inl ReportParseError),
      JSON_parse_dependencies = (\<lambda>s.
          if s = js ''[]'' then Inr (JArr [])
          else if s = flag_text then Inr (deps_json [depB, depA])
          else if s = nameless_text then Inr (JArr [JObj [(js ''name'', JStr (js ''alpha''))]])
          else if s = js ''null'' then Inr JNull
          else Inl DependenciesParseError),
      readFileSync = (\<lambda>p.
          if p = js ''v.json'' then Inr versions_text
          else if p = js ''bare.json'' then Inr bare_text
          else Inl ManifestReadError),
      JSON_parse_versions = (\<lambda>s.
          if s = versions_text then Inr (versions_json example_versions)
          else if s = bare_text
          then Inr (JObj [(js ''jahia'', JObj []), (js ''module'', JObj []),
                          (js ''dependencies'', JArr [])])
          else Inl ManifestParseError),
      uuidv5 = (\<lambda>s ns. ns @ js '':'' @ s),
      toISOString_now = js ''2021-03-04T05:06:07.000Z'',
      JSON_stringify = (\<lambda>ev. zc_id ev @ js '','' @ zc_state ev),
      hmac_sha1_hex = (\<lambda>k d. k @ js ''/'' @ d),
      post = (\<lambda>r. Inr ())\<rparr>"

definition example_flags :: flags where
  "example_flags =
     \<lparr>flag_type = js ''xml'', flag_name = js ''Jahia'', flag_version = js ''SNAPSHOT'',
      flag_dependencies = flag_text, flag_url = js ''http://ci/1'',
      flag_versionFilepath = None\<rparr>"

definition example_args :: args where
  "example_args =
     \<lparr>arg_file = js ''fail.xml'', arg_payloadurl = js ''http://zc'', arg_secret = js ''abc''\<rparr>"




definition huge_args :: args where
  "huge_args = example_args\<lparr>arg_file := js ''huge.xml''\<rparr>"


definition bare_flags :: flags where
  "bare_flags =
     example_flags\<lparr>flag_dependencies := js ''[]'', flag_versionFilepath := Some (js ''bare.json'')\<rparr>"

text \<open>The event and the request of the example run, whose report counts 5 failures in 2 tests.\<close>

definition example_event :: "nat ZenCrepesStateNode" where
  "example_event =
     \<lparr>zc_id = fst (getId (uuidv5 example_world) (js ''Jahia'') (js ''SNAPSHOT'') [depB, depA]),
      zc_name = js ''Jahia'',
      zc_version = Some (JStr (js ''SNAPSHOT'')),
      zc_dependencies = snd (getId (uuidv5 example_world) (js ''Jahia'') (js ''SNAPSHOT'') [depB, depA]),
      zc_createdAt = js ''2021-03-04T05:06:07.000Z'',
      zc_state = js ''FAIL'',
      zc_url = js ''http://ci/1'',
      zc_runTotal = 2,
      zc_runSuccess = minus_double 2 5,
      zc_runFailure = 5,
      zc_runDuration = 7\<rparr>"

definition example_request :: "nat request" where
  "example_request = request_of example_world example_args example_event"

section \<open>Properties\<close>

subsection \<open>The comparison function is a total order on dependencies\<close>

lemma compareDeps_le_iff:
  "compareDeps a b \<le> 0 \<longleftrightarrow>
     dep_name a < dep_name b \<or> (dep_name a = dep_name b \<and> dep_version a \<le> dep_version b)"
  by (auto simp: compareDeps_def)

lemma compareDeps_total: "compareDeps a b \<le> 0 \<or> compareDeps b a \<le> 0"
  by (auto simp: compareDeps_le_iff)

lemma compareDeps_trans:
  "compareDeps a b \<le> 0 \<Longrightarrow> compareDeps b c \<le> 0 \<Longrightarrow> compareDeps a c \<le> 0"
  by (auto simp: compareDeps_le_iff)

lemma compareDeps_antisym:
  fixes a b :: ZenCrepesDependency
  shows "compareDeps a b \<le> 0 \<Longrightarrow> compareDeps b a \<le> 0 \<Longrightarrow> a = b"
  by (auto simp: compareDeps_le_iff)

lemma compareDeps_refl: "compareDeps a a = 0"
  by (simp add: compareDeps_def)

subsection \<open>The sort\<close>

lemma mset_sort_insert: "mset (sort_insert cmp x xs) = add_mset x (mset xs)"
  by (induction xs) auto

lemma mset_array_sort: "mset (array_sort cmp xs) = mset xs"
  by (induction xs) (auto simp: mset_sort_insert)

lemma set_sort_insert: "set (sort_insert cmp x xs) = insert x (set xs)"
  by (induction xs) auto

lemma sorted_sort_insert:
  "sorted_wrt dep_le xs \<Longrightarrow> sorted_wrt dep_le (sort_insert compareDeps x xs)"
proof (induction xs)
  case Nil
  then show ?case by simp
next
  case (Cons y ys)
  show ?case
  proof (cases "compareDeps x y \<le> 0")
    case True
    with Cons.prems show ?thesis
      by (auto intro: compareDeps_trans)
  next
    case False
    then have "compareDeps y x \<le> 0"
      using compareDeps_total [of x y] by simp
    with False Cons show ?thesis
      by (auto simp: set_sort_insert)
  qed
qed

lemma sorted_array_sort: "sorted_wrt dep_le (array_sort compareDeps xs)"
  by (induction xs) (auto intro: sorted_sort_insert)

text \<open>Two sorted arrangements of the same dependencies are the same list.\<close>

lemma sorted_deps_unique:
  fixes xs ys :: "ZenCrepesDependency list"
  assumes "sorted_wrt dep_le xs" and "sorted_wrt dep_le ys" and "mset xs = mset ys"
  shows "xs = ys"
  using assms
proof (induction xs arbitrary: ys)
  case Nil
  then show ?case by simp
next
  case (Cons x xs)
  from Cons.prems(3) obtain y ys' where ys: "ys = y # ys'"
    by (cases ys) auto
  have "x \<in> set ys" "y \<in> set (x # xs)"
    using Cons.prems(3) ys by (metis list.set_intros(1) set_mset_mset)+
  then have "compareDeps y x \<le> 0" "compareDeps x y \<le> 0"
    using Cons.prems(1,2) ys by (auto simp: compareDeps_refl)
  then have xy: "x = y"
    by (rule compareDeps_antisym [rotated])
  with Cons.prems ys have "xs = ys'"
    by (intro Cons.IH) auto
  with xy ys show ?case by simp
qed

text \<open>
  So the choice of the sorting algorithm does not matter: any rearrangement of the array
  that is in order is the one \<open>array_sort\<close> returns.
\<close>

lemma array_sort_unique:
  fixes xs ys :: "ZenCrepesDependency list"
  shows "sorted_wrt dep_le ys \<Longrightarrow> mset ys = mset xs \<Longrightarrow> ys = array_sort compareDeps xs"
  by (rule sorted_deps_unique) (simp_all add: sorted_array_sort mset_array_sort)

lemma array_sort_perm:
  fixes xs ys :: "ZenCrepesDependency list"
  shows "mset xs = mset ys \<Longrightarrow> array_sort compareDeps xs = array_sort compareDeps ys"
  by (intro sorted_deps_unique sorted_array_sort) (simp add: mset_array_sort)

lemma sort_insert_least: "\<forall>y\<in>set xs. cmp x y \<le> 0 \<Longrightarrow> sort_insert cmp x xs = x # xs"
  by (cases xs) auto

lemma array_sort_sorted_id: "sorted_wrt (\<lambda>a b. cmp a b \<le> 0) xs \<Longrightarrow> array_sort cmp xs = xs"
  by (induction xs) (auto simp: sort_insert_least)

lemma array_sort_idem:
  "array_sort compareDeps (array_sort compareDeps xs) = array_sort compareDeps xs"
  by (rule array_sort_sorted_id) (rule sorted_array_sort)

subsection \<open>getId\<close>

lemma fst_getId:
  "fst (getId u n v ds) =
     u (fold appendDep (array_sort compareDeps ds) (prepString n @ prepString v)) UUID_NAMESPACE"
  by (simp add: getId_def Let_def)

lemma snd_getId: "snd (getId u n v ds) = array_sort compareDeps ds"
  by (simp add: getId_def Let_def)

text \<open>What is left after cleaning: digits and lower-case ASCII letters.\<close>

lemma prepString_alphabet:
  assumes "c \<in> set (prepString s)"
  shows "(0x30 \<le> c \<and> c \<le> 0x39) \<or> (0x61 \<le> c \<and> c \<le> 0x7A)"
proof -
  from assms obtain d where d: "alnum d"
    and c: "c = (if 0x41 \<le> d \<and> d \<le> 0x5A then d + 0x20 else d)"
    by (auto simp: prepString_def toLowerCase_def)
  show ?thesis
  proof (cases "0x41 \<le> d \<and> d \<le> 0x5A")
    case True
    then have "0x61 \<le> d + 0x20 \<and> d + 0x20 \<le> 0x7A"
      by (simp add: word_le_nat_alt unat_word_ariths)
    with True c show ?thesis by simp
  next
    case False
    with d c show ?thesis by (auto simp: alnum_def)
  qed
qed

lemmas prep_defs = prepString_def toLowerCase_def alnum_def js_def

text \<open>
  C2. The id does not depend on the order in which the dependencies are supplied:
  \<open>[d1, d2]\<close> and \<open>[d2, d1]\<close> give the same id, and so do any two lists that hold the same
  dependencies the same number of times.
\<close>

theorem getId_order_independent:
  "fst (getId u n v [d1, d2]) = fst (getId u n v [d2, d1]) \<and>
   (mset ds = mset ds' \<longrightarrow> fst (getId u n v ds) = fst (getId u n v ds'))"
proof
  have "mset [d1, d2] = mset [d2, d1]"
    by simp
  then have "array_sort compareDeps [d1, d2] = array_sort compareDeps [d2, d1]"
    by (rule array_sort_perm)
  then show "fst (getId u n v [d1, d2]) = fst (getId u n v [d2, d1])"
    by (simp only: fst_getId)
next
  show "mset ds = mset ds' \<longrightarrow> fst (getId u n v ds) = fst (getId u n v ds')"
  proof
    assume "mset ds = mset ds'"
    then have "array_sort compareDeps ds = array_sort compareDeps ds'"
      by (rule array_sort_perm)
    then show "fst (getId u n v ds) = fst (getId u n v ds')"
      by (simp only: fst_getId)
  qed
qed

theorem getId_order_independent_witness:
  "mset [depB, depA, depC] = mset [depC, depB, depA] \<and>
   fst (getId (uuidv5 example_world) (js ''Jahia'') (js ''SNAPSHOT'') [depB, depA, depC]) =
   fst (getId (uuidv5 example_world) (js ''Jahia'') (js ''SNAPSHOT'') [depC, depB, depA])"
  using getId_order_independent
    [of "uuidv5 example_world" "js ''Jahia''" "js ''SNAPSHOT''" depB depA
        "[depB, depA, depC]" "[depC, depB, depA]"]
  by simp

text \<open>
  C5. Cleaning deletes every code unit that is not an ASCII letter or digit and lower-cases
  the rest, so \<open>My-Mod\<close> becomes \<open>mymod\<close> and \<open>1.0.0\<close> becomes \<open>100\<close>;
  \<open>getId("My-Mod", "1.0.0", [])\<close> equals \<open>getId("mymod", "100", [])\<close>, and any two names
  and two versions that clean to the same strings give the same id.
\<close>

theorem getId_normalization_insensitive:
  "prepString (js ''My-Mod'') = js ''mymod'' \<and> prepString (js ''1.0.0'') = js ''100'' \<and>
   fst (getId u (js ''My-Mod'') (js ''1.0.0'') []) = fst (getId u (js ''mymod'') (js ''100'') []) \<and>
   (prepString n = prepString n' \<and> prepString v = prepString v' \<longrightarrow>
      fst (getId u n v ds) = fst (getId u n' v' ds))"
proof -
  have a: "prepString (js ''My-Mod'') = js ''mymod''"
    by (simp add: prep_defs)
  have b: "prepString (js ''1.0.0'') = js ''100''"
    by (simp add: prep_defs)
  have c: "prepString (js ''mymod'') = js ''mymod''"
    by (simp add: prep_defs)
  have d: "prepString (js ''100'') = js ''100''"
    by (simp add: prep_defs)
  have "fst (getId u (js ''My-Mod'') (js ''1.0.0'') []) = fst (getId u (js ''mymod'') (js ''100'') [])"
    by (simp only: fst_getId a b c d)
  moreover have "prepString n = prepString n' \<and> prepString v = prepString v' \<longrightarrow>
      fst (getId u n v ds) = fst (getId u n' v' ds)"
    by (simp add: fst_getId)
  ultimately show ?thesis
    using a b by blast
qed

theorem getId_normalization_insensitive_witness:
  "prepString (js ''A.b'') = prepString (js ''ab'') \<and>
   prepString (js ''v2'') = prepString (js ''V-2'') \<and>
   fst (getId (uuidv5 example_world) (js ''A.b'') (js ''v2'') [depA]) =
   fst (getId (uuidv5 example_world) (js ''ab'') (js ''V-2'') [depA])"
proof -
  have h: "prepString (js ''A.b'') = prepString (js ''ab'') \<and>
           prepString (js ''v2'') = prepString (js ''V-2'')"
    by (simp add: prep_defs)
  with getId_normalization_insensitive
    [of "uuidv5 example_world" "js ''A.b''" "js ''ab''" "js ''v2''" "js ''V-2''" "[depA]"]
  show ?thesis by blast
qed

text \<open>
  C8. A second call of \<open>getId\<close> with the same name and version, on the array as the first
  call left it (sorted in place), returns the same id and leaves the array as it is.
\<close>

theorem getId_deterministic:
  "fst (getId u n v (snd (getId u n v ds))) = fst (getId u n v ds) \<and>
   snd (getId u n v (snd (getId u n v ds))) = snd (getId u n v ds)"
  by (simp add: fst_getId snd_getId array_sort_idem)


subsection \<open>Values of the declared types, as JSON\<close>

lemma dependency_of_dep_json: "dependency_of (dep_json d) = Some d"
  by (simp add: dependency_of_def dep_json_def js_def)

lemma those_dependency_of: "those (map dependency_of (map dep_json ds)) = Some ds"
  by (induction ds) (simp_all add: dependency_of_dep_json)

lemma dependencies_of_deps_json: "dependencies_of (deps_json ds) = Some ds"
  by (simp add: dependencies_of_def deps_json_def those_dependency_of del: map_map)

lemma getId_call_deps_json: "getId_call u n v (deps_json ds) = Inr (getId u n v ds)"
  by (simp add: getId_call_def dependencies_of_deps_json)


subsection \<open>Only a TypeError comes out of the merge and of the call of getId\<close>









subsection \<open>Double rounding\<close>

lemma bit_length_le:
  "m < 2 ^ k \<Longrightarrow> bit_length m \<le> k"
proof (induction k arbitrary: m)
  case 0
  then show ?case
    by (subst bit_length.simps) simp
next
  case (Suc k)
  from Suc.prems have "m div 2 < 2 ^ k"
    by simp
  then have "bit_length (m div 2) \<le> k"
    by (rule Suc.IH)
  then show ?case
    by (subst bit_length.simps) simp
qed

lemma bit_length_2_53: "bit_length (2 ^ 53) = 54"
  by code_simp

text \<open>Up to \<open>2 ^ 53\<close> in absolute value, a whole number is a double: rounding keeps it.\<close>

lemma round_double_exact:
  assumes "\<bar>x\<bar> \<le> 2 ^ 53"
  shows "round_double x = Finite x"
proof -
  define m where "m = \<bar>x\<bar>"
  have r: "round_double x =
      (let e = bit_length m - 53;
           q = m div 2 ^ e;
           r = m mod 2 ^ e;
           q' = (if 2 ^ e < 2 * r \<or> (2 * r = 2 ^ e \<and> odd q) then q + 1 else q);
           y = q' * 2 ^ e
       in if 2 ^ 1024 \<le> y then (if x < 0 then MinusInfinity else PlusInfinity)
          else Finite (if x < 0 then - y else y))"
    unfolding m_def round_double_def Let_def ..
  have s: "x < 0 \<Longrightarrow> - m = x" "\<not> x < 0 \<Longrightarrow> m = x"
    by (simp_all add: m_def)
  show ?thesis
  proof (cases "m < 2 ^ 53")
    case True
    then have "bit_length m \<le> 53"
      by (rule bit_length_le)
    then have e: "bit_length m - 53 = 0"
      by simp
    have "m < 2 ^ 1024"
      using True by (rule less_trans) simp
    then have "round_double x = Finite (if x < 0 then - m else m)"
      unfolding r Let_def e by simp
    then show ?thesis
      by (cases "x < 0") (simp_all add: s)
  next
    case False
    with assms have m: "m = 2 ^ 53"
      by (simp add: m_def)
    have e: "bit_length m - 53 = 1"
      unfolding m bit_length_2_53 by simp
    have "round_double x = Finite (if x < 0 then - (2 ^ 53) else 2 ^ 53)"
      by (simp only: r Let_def e) (simp add: m)
    then show ?thesis
      using s by (cases "x < 0") (simp_all add: m)
  qed
qed

subsection \<open>run, stage by stage\<close>

lemma run_resolve_no_file:
  assumes "JSON_parse_dependencies w (flag_dependencies fl) = Inr j"
    and "flag_versionFilepath fl = None"
  shows "run_resolve w fl = Inr (j, Some (JStr (flag_version fl)))"
  using assms by (simp add: run_resolve_def)



lemma run_complete:
  assumes "ingestReport w (flag_type fl) (arg_file ar) = Inr rep"
    and "run_resolve w fl = Inr (j, v)"
    and "run_payload w fl rep j v = Inr ev"
  shows "run w fl ar =
           ([Log (JSON_stringify w ev), Post (request_of w ar ev)], post w (request_of w ar ev))"
  using assms by (simp add: run_def request_of_def Let_def)

lemma run_abort_ingest:
  assumes "ingestReport w (flag_type fl) (arg_file ar) = Inl e"
  shows "run w fl ar = ([], Inl e)"
  using assms by (simp add: run_def)

lemma run_abort_resolve:
  assumes "ingestReport w (flag_type fl) (arg_file ar) = Inr rep"
    and "run_resolve w fl = Inl e"
  shows "run w fl ar = ([], Inl e)"
  using assms by (simp add: run_def)

lemma run_abort_payload:
  assumes "ingestReport w (flag_type fl) (arg_file ar) = Inr rep"
    and "run_resolve w fl = Inr (j, v)"
    and "run_payload w fl rep j v = Inl e"
  shows "run w fl ar = ([], Inl e)"
  using assms by (simp add: run_def)

text \<open>What the run ends as, by the stage that stops it.\<close>

lemma run_cases:
  obtains
    (ingest) e where "ingestReport w (flag_type fl) (arg_file ar) = Inl e"
      "run w fl ar = ([], Inl e)"
  | (resolve) rep e where "ingestReport w (flag_type fl) (arg_file ar) = Inr rep"
      "run_resolve w fl = Inl e" "run w fl ar = ([], Inl e)"
  | (payload) rep j v e where "ingestReport w (flag_type fl) (arg_file ar) = Inr rep"
      "run_resolve w fl = Inr (j, v)" "run_payload w fl rep j v = Inl e"
      "run w fl ar = ([], Inl e)"
  | (complete) rep j v ev where "ingestReport w (flag_type fl) (arg_file ar) = Inr rep"
      "run_resolve w fl = Inr (j, v)" "run_payload w fl rep j v = Inr ev"
      "run w fl ar =
         ([Log (JSON_stringify w ev), Post (request_of w ar ev)], post w (request_of w ar ev))"
proof (cases "ingestReport w (flag_type fl) (arg_file ar)")
  case (Inl e)
  then show ?thesis
    by (rule ingest) (rule run_abort_ingest [OF Inl])
next
  case rep: (Inr rep)
  show ?thesis
  proof (cases "run_resolve w fl")
    case (Inl e)
    with rep show ?thesis
      by (intro resolve run_abort_resolve)
  next
    case (Inr p)
    obtain j v where p: "p = (j, v)"
      by (cases p)
    show ?thesis
    proof (cases "run_payload w fl rep j v")
      case (Inl e)
      with rep Inr p show ?thesis
        by (intro payload [of rep j v e] run_abort_payload) simp_all
    next
      case ev: (Inr ev)
      with rep Inr p show ?thesis
        by (intro complete [of rep j v ev] run_complete) simp_all
    qed
  qed
qed

text \<open>Whatever is posted was built from a report that was read and dependencies that resolved.\<close>

lemma run_posted:
  assumes "Post rq \<in> set (fst (run w fl ar))"
  obtains rep j v ev where
    "ingestReport w (flag_type fl) (arg_file ar) = Inr rep"
    "run_resolve w fl = Inr (j, v)"
    "run_payload w fl rep j v = Inr ev"
    "rq = request_of w ar ev"
    "fst (run w fl ar) = [Log (JSON_stringify w ev), Post rq]"
  using assms by (cases w fl ar rule: run_cases) auto


lemma run_payload_counts:
  assumes "run_payload w fl rep j v = Inr ev"
  shows "zc_state ev = (if report_failures rep = 0 then js ''PASS'' else js ''FAIL'')"
    and "zc_runSuccess ev = minus_double (report_tests rep) (report_failures rep)"
    and "zc_version ev = v"
  using assms by (auto simp: run_payload_def split: sum.splits prod.splits)

lemma run_payload_dependencies:
  assumes "dependencies_of j = Some ds"
  shows "run_payload w fl rep j v =
     Inr \<lparr>zc_id = fst (getId (uuidv5 w) (flag_name fl) (flag_version fl) ds),
          zc_name = flag_name fl,
          zc_version = v,
          zc_dependencies = snd (getId (uuidv5 w) (flag_name fl) (flag_version fl) ds),
          zc_createdAt = toISOString_now w,
          zc_state = (if report_failures rep = 0 then js ''PASS'' else js ''FAIL''),
          zc_url = flag_url fl,
          zc_runTotal = report_tests rep,
          zc_runSuccess = minus_double (report_tests rep) (report_failures rep),
          zc_runFailure = report_failures rep,
          zc_runDuration = report_time rep\<rparr>"
  using assms by (simp add: run_payload_def getId_call_def split: prod.splits)

lemmas run_payload_deps_json = run_payload_dependencies [OF dependencies_of_deps_json]

lemma request_fields:
  "req_json (request_of w ar ev) = ev"
  "req_headers (request_of w ar ev) =
     [(js ''x-hub-signature'', run_signature w ar ev),
      (js ''Content-Type'', js ''application/json'')]"
  by (simp_all add: request_of_def)


lemma example_parse:
  "JSON_parse_dependencies example_world flag_text = Inr (deps_json [depB, depA])"
  "readFileSync example_world (js ''v.json'') = Inr versions_text"
  "JSON_parse_versions example_world versions_text = Inr (versions_json example_versions)"
  by (simp_all add: example_world_def flag_text_def versions_text_def bare_text_def js_def)



subsection \<open>The example runs\<close>

lemma example_ingest:
  "ingestReport example_world (flag_type example_flags) (arg_file example_args) =
     Inr \<lparr>report_tests = 2, report_failures = 5, report_time = 7\<rparr>"
  by (simp add: example_world_def example_flags_def example_args_def js_def)

lemma example_resolve:
  "run_resolve example_world example_flags =
     Inr (deps_json [depB, depA], Some (JStr (js ''SNAPSHOT'')))"
  using run_resolve_no_file [of example_world example_flags "deps_json [depB, depA]"]
  by (simp add: example_flags_def example_parse)

lemma example_payload:
  "run_payload example_world example_flags
     \<lparr>report_tests = 2, report_failures = 5, report_time = 7\<rparr>
     (deps_json [depB, depA]) (Some (JStr (js ''SNAPSHOT''))) = Inr example_event"
  by (simp add: run_payload_deps_json example_event_def)
    (simp add: example_world_def example_flags_def)

lemma example_run:
  "run example_world example_flags example_args =
     ([Log (JSON_stringify example_world example_event), Post example_request],
      post example_world example_request)"
  unfolding example_request_def
  by (rule run_complete [OF example_ingest example_resolve example_payload])

lemma example_posted:
  "Post example_request \<in> set (fst (run example_world example_flags example_args))"
  by (simp add: example_run)

lemma example_sort: "array_sort compareDeps [depB, depA] = [depA, depB]"
  by (simp add: compareDeps_def depA_def depB_def js_def)

text \<open>
  A version file that has the three entries and nothing in them: nothing throws, the
  pushed dependency has the version \<open>undefined-undefined\<close> and the posted event has no
  version.
\<close>

lemma bare_file_run:
  "map (\<lambda>rq. (zc_version (req_json rq), zc_dependencies (req_json rq)))
     (posted (fst (run example_world bare_flags example_args))) =
   [(None, [\<lparr>dep_name = js ''Jahia'', dep_version = js ''undefined-undefined''\<rparr>])]"
proof -
  have "run_resolve example_world bare_flags =
      Inr (deps_json [\<lparr>dep_name = js ''Jahia'', dep_version = js ''undefined-undefined''\<rparr>],
           None)"
    by (simp add: run_resolve_def run_merge_def bare_flags_def example_flags_def
        example_world_def andThen_def substitution_def deps_json_def dep_json_def
        versions_text_def bare_text_def flag_text_def nameless_text_def js_def)
  moreover have "ingestReport example_world (flag_type bare_flags) (arg_file example_args) =
      Inr \<lparr>report_tests = 2, report_failures = 5, report_time = 7\<rparr>"
    by (simp add: example_world_def bare_flags_def example_flags_def example_args_def js_def)
  ultimately show ?thesis
    by (simp add: run_def run_payload_deps_json snd_getId Let_def)
qed

subsection \<open>The claims about run\<close>

text \<open>
  C6, as the code has it. Whenever an event is posted, its state is \<open>PASS\<close> exactly when the
  report counts no failure and \<open>FAIL\<close> otherwise, and its \<open>runSuccess\<close> is the tests minus
  the failures in double arithmetic: the exact difference when that is at most \<open>2 ^ 53\<close> in
  absolute value. Nothing else is asked of the two counts, so this holds too when the
  failures exceed the tests.
\<close>

theorem state_derivation:
  assumes "ingestReport w (flag_type fl) (arg_file ar) = Inr rep"
    and "Post rq \<in> set (fst (run w fl ar))"
  shows "(zc_state (req_json rq) = js ''PASS'' \<longleftrightarrow> report_failures rep = 0) \<and>
         (zc_state (req_json rq) = js ''FAIL'' \<longleftrightarrow> report_failures rep \<noteq> 0) \<and>
         zc_runSuccess (req_json rq) =
           minus_double (report_tests rep) (report_failures rep) \<and>
         (\<bar>report_tests rep - report_failures rep\<bar> \<le> 2 ^ 53 \<longrightarrow>
            zc_runSuccess (req_json rq) = Finite (report_tests rep - report_failures rep))"
proof -
  from assms(2) obtain rep' j v ev where
    "ingestReport w (flag_type fl) (arg_file ar) = Inr rep'"
    and ev: "run_payload w fl rep' j v = Inr ev"
    and rq: "rq = request_of w ar ev"
    by (rule run_posted)
  with assms(1) have "rep' = rep"
    by simp
  with ev have p: "run_payload w fl rep j v = Inr ev"
    by simp
  have e: "req_json rq = ev"
    by (simp add: rq request_fields)
  have "js ''PASS'' \<noteq> js ''FAIL''"
    by (simp add: js_def)
  then show ?thesis
    unfolding e run_payload_counts [OF p]
    by (simp add: minus_double_def round_double_exact)
qed

lemma minus_double_2_5: "minus_double 2 5 = Finite (- 3)"
  by (simp add: minus_double_def round_double_exact)

theorem state_derivation_witness:
  "ingestReport example_world (flag_type example_flags) (arg_file example_args) =
     Inr \<lparr>report_tests = 2, report_failures = 5, report_time = 7\<rparr> \<and>
   Post example_request \<in> set (fst (run example_world example_flags example_args)) \<and>
   zc_state (req_json example_request) = js ''FAIL'' \<and>
   zc_runSuccess (req_json example_request) = Finite (- 3)"
  using state_derivation [OF example_ingest example_posted] example_ingest example_posted
  by (simp add: minus_double_2_5)

text \<open>
  C6, as the spec has it, fails: for a report of \<open>2 ^ 54\<close> tests and one failure the posted
  \<open>runSuccess\<close> is \<open>2 ^ 54\<close>, not \<open>2 ^ 54 - 1\<close>.
\<close>

theorem run_success_counterexample:
  "ingestReport example_world (flag_type example_flags) (arg_file huge_args) =
     Inr \<lparr>report_tests = 2 ^ 54, report_failures = 1, report_time = 9\<rparr> \<and>
   map (zc_runSuccess \<circ> req_json) (posted (fst (run example_world example_flags huge_args))) =
     [Finite (2 ^ 54)] \<and>
   Finite (2 ^ 54) \<noteq> Finite (2 ^ 54 - 1)"
proof -
  have i: "ingestReport example_world (flag_type example_flags) (arg_file huge_args) =
      Inr \<lparr>report_tests = 2 ^ 54, report_failures = 1, report_time = 9\<rparr>"
    by (simp add: example_world_def example_flags_def huge_args_def example_args_def js_def)
  have r: "round_double (2 ^ 54 - 1) = Finite (2 ^ 54)"
    by code_simp
  have "map (zc_runSuccess \<circ> req_json)
      (posted (fst (run example_world example_flags huge_args))) =
      [minus_double (2 ^ 54) 1]"
    by (simp add: run_def i example_resolve run_payload_deps_json Let_def)
  with i r show ?thesis
    by (simp add: minus_double_def)
qed

text \<open>
  C4. The \<open>x-hub-signature\<close> header of the posted request is \<open>sha1=\<close> followed by the
  hexadecimal HMAC-SHA1, keyed by the secret, of the body that goes on the wire.
\<close>

theorem signature_over_wire_body:
  assumes "Post rq \<in> set (fst (run w fl ar))"
  shows "req_headers rq =
           [(js ''x-hub-signature'',
             js ''sha1='' @ hmac_sha1_hex w (arg_secret ar) (wire_body w rq)),
            (js ''Content-Type'', js ''application/json'')]"
proof -
  from assms obtain ev where "rq = request_of w ar ev"
    by (rule run_posted)
  then show ?thesis
    by (simp add: request_fields run_signature_def wire_body_def)
qed

theorem signature_over_wire_body_witness:
  "Post example_request \<in> set (fst (run example_world example_flags example_args)) \<and>
   req_headers example_request =
     [(js ''x-hub-signature'',
       js ''sha1='' @ hmac_sha1_hex example_world (js ''abc'')
                        (wire_body example_world example_request)),
      (js ''Content-Type'', js ''application/json'')]"
  using signature_over_wire_body [OF example_posted] example_posted
  by (simp add: example_args_def)

text \<open>
  C10. When a request is posted, the command has logged one line before it: the JSON text
  of the posted event, which is the very string the signature in the header was computed
  over.
\<close>

theorem logged_text_is_signed_text:
  assumes "Post rq \<in> set (fst (run w fl ar))"
  shows "\<exists>s. fst (run w fl ar) = [Log s, Post rq] \<and>
             s = JSON_stringify w (req_json rq) \<and>
             map_of (req_headers rq) (js ''x-hub-signature'') =
               Some (js ''sha1='' @ hmac_sha1_hex w (arg_secret ar) s)"
proof -
  from assms obtain ev where rq: "rq = request_of w ar ev"
    and tr: "fst (run w fl ar) = [Log (JSON_stringify w ev), Post rq]"
    by (rule run_posted)
  have "fst (run w fl ar) = [Log (JSON_stringify w (req_json rq)), Post rq]"
    by (simp add: tr rq request_fields)
  moreover have "map_of (req_headers rq) (js ''x-hub-signature'') =
      Some (js ''sha1='' @ hmac_sha1_hex w (arg_secret ar) (JSON_stringify w (req_json rq)))"
    by (simp add: rq request_fields run_signature_def)
  ultimately show ?thesis
    by blast
qed

theorem logged_text_is_signed_text_witness:
  "Post example_request \<in> set (fst (run example_world example_flags example_args)) \<and>
   logged (fst (run example_world example_flags example_args)) =
     [JSON_stringify example_world (req_json example_request)] \<and>
   map_of (req_headers example_request) (js ''x-hub-signature'') =
     Some (js ''sha1='' @ hmac_sha1_hex example_world (js ''abc'')
                           (JSON_stringify example_world (req_json example_request)))"
proof -
  from logged_text_is_signed_text [OF example_posted] obtain s where
    "fst (run example_world example_flags example_args) = [Log s, Post example_request]"
    "s = JSON_stringify example_world (req_json example_request)"
    "map_of (req_headers example_request) (js ''x-hub-signature'') =
       Some (js ''sha1='' @ hmac_sha1_hex example_world (arg_secret example_args) s)"
    by blast
  with example_posted show ?thesis
    by (simp add: example_args_def)
qed



text \<open>
  C3, as the code has it. \<open>getId\<close> sorts the array it is given, in place; the event's
  \<open>dependencies\<close> is that same array, so the posted event lists the resolved dependencies
  (whatever JSON array of dependencies the resolution gave) in the order of the comparison
  function (by name, then by version): a rearrangement of
  the resolved list, holding each dependency as often as it was supplied.
\<close>

theorem event_dependencies_sorted:
  assumes "run_resolve w fl = Inr (j, v)"
    and "dependencies_of j = Some ds"
    and "Post rq \<in> set (fst (run w fl ar))"
  shows "zc_dependencies (req_json rq) = snd (getId (uuidv5 w) (flag_name fl) (flag_version fl) ds) \<and>
         zc_dependencies (req_json rq) = array_sort compareDeps ds \<and>
         sorted_wrt (\<lambda>a b. compareDeps a b \<le> 0) (zc_dependencies (req_json rq)) \<and>
         mset (zc_dependencies (req_json rq)) = mset ds"
proof -
  from assms(3) obtain rep j' v' ev where
    "run_resolve w fl = Inr (j', v')"
    and ev: "run_payload w fl rep j' v' = Inr ev"
    and rq: "rq = request_of w ar ev"
    by (rule run_posted)
  with assms(1) have "j' = j"
    by simp
  with ev rq assms(2) have "zc_dependencies (req_json rq) = array_sort compareDeps ds"
    by (auto simp: request_fields run_payload_dependencies snd_getId)
  then show ?thesis
    by (simp add: snd_getId sorted_array_sort mset_array_sort)
qed

theorem event_dependencies_sorted_witness:
  "run_resolve example_world example_flags =
     Inr (deps_json [depB, depA], Some (JStr (js ''SNAPSHOT''))) \<and>
   dependencies_of (deps_json [depB, depA]) = Some [depB, depA] \<and>
   Post example_request \<in> set (fst (run example_world example_flags example_args)) \<and>
   zc_dependencies (req_json example_request) = [depA, depB]"
proof -
  from event_dependencies_sorted [OF example_resolve dependencies_of_deps_json example_posted]
  have "zc_dependencies (req_json example_request) = array_sort compareDeps [depB, depA]"
    by blast
  then have "zc_dependencies (req_json example_request) = [depA, depB]"
    by (simp only: example_sort)
  with example_resolve dependencies_of_deps_json example_posted show ?thesis
    by blast
qed

text \<open>
  C3, as the spec has it, fails: supplied \<open>beta\<close> before \<open>alpha\<close>, \<open>getId\<close> leaves the array
  as \<open>alpha\<close> before \<open>beta\<close>, and so does the posted event.
\<close>

theorem insertion_order_counterexample:
  "run_resolve example_world example_flags =
     Inr (deps_json [depB, depA], Some (JStr (js ''SNAPSHOT''))) \<and>
   snd (getId (uuidv5 example_world) (flag_name example_flags) (flag_version example_flags)
          [depB, depA]) \<noteq> [depB, depA] \<and>
   map (zc_dependencies \<circ> req_json) (posted (fst (run example_world example_flags example_args)))
     = [[depA, depB]] \<and>
   [depA, depB] \<noteq> [depB, depA]"
proof -
  have n: "[depA, depB] \<noteq> [depB, depA]"
    by (simp add: depA_def depB_def js_def)
  have g: "snd (getId (uuidv5 example_world) (flag_name example_flags)
                 (flag_version example_flags) [depB, depA]) = [depA, depB]"
    by (simp only: snd_getId example_sort)
  have g': "snd (getId (uuidv5 example_world) (js ''Jahia'') (js ''SNAPSHOT'') [depB, depA]) =
      [depA, depB]"
    by (simp only: snd_getId example_sort)
  have "zc_dependencies (req_json example_request) = [depA, depB]"
    by (simp add: example_request_def request_fields example_event_def g')
  then have "map (zc_dependencies \<circ> req_json)
      (posted (fst (run example_world example_flags example_args))) = [[depA, depB]]"
    by (simp add: example_run)
  with n g example_resolve show ?thesis
    by simp
qed




end
